theory Spec2Isabelle
  imports Main "HOL-Library.Sublist"
begin

section \<open>Python values, errors and the runtime the module reads\<close>

text \<open>
  The module under study is \<^verbatim>\<open>monkeytype/config.py\<close>. Its module-level code reads two
  facilities of the Python runtime, \<^verbatim>\<open>sysconfig.get_path\<close> and the attribute
  \<^verbatim>\<open>sys.real_prefix\<close>; its functions read three module globals (\<^verbatim>\<open>LIB_PATHS\<close>,
  \<^verbatim>\<open>DEFAULT_REWRITER\<close>, \<^verbatim>\<open>os.environ\<close>). Exceptions are values: every call returns
  \<open>py_error + 'a\<close>, with \<open>Inl\<close> the exception raised.
\<close>

datatype py_error =
    AttributeError
  | TypeError
  | AbstractTypeError "string list"

text \<open>
  \<open>AbstractTypeError names\<close> is the \<^verbatim>\<open>TypeError\<close> that \<^verbatim>\<open>ABCMeta\<close> raises when a class
  with the abstract methods \<open>names\<close> left is instantiated; plain \<open>TypeError\<close> is the one
  \<^verbatim>\<open>str.startswith\<close> raises on a tuple holding a non-string.
\<close>

datatype pyval = PyNone | PyBool bool | PyStr string

text \<open>Python truthiness, as \<^verbatim>\<open>if venv_real_prefix:\<close> tests it.\<close>

fun truthy :: "pyval \<Rightarrow> bool" where
  "truthy PyNone = False"
| "truthy (PyBool b) = b"
| "truthy (PyStr s) = (s \<noteq> [])"

text \<open>
  The runtime: \<open>sysconfig_get_path rt n vars\<close> is \<^verbatim>\<open>sysconfig.get_path(n, vars=vars)\<close>
  (an empty \<open>vars\<close> is the call without overrides), \<open>None\<close> being Python's \<^verbatim>\<open>None\<close>;
  \<open>sys_real_prefix rt\<close> is the attribute \<^verbatim>\<open>real_prefix\<close> of \<^verbatim>\<open>sys\<close>, \<open>None\<close> when the
  attribute does not exist and \<open>Some v\<close> when it is set to the value \<open>v\<close>.
\<close>

record runtime =
  sysconfig_get_path :: "string \<Rightarrow> (string \<times> pyval) list \<Rightarrow> string option"
  sys_real_prefix :: "pyval option"

section \<open>The library path prefixes (module level, lines 73 to 80)\<close>

text \<open>
  \<^verbatim>\<open>lib_paths = {sysconfig.get_path(n) for n in ['stdlib', 'purelib', 'platlib']}\<close>.
  A Python set is modelled as a list without duplicates; the iteration order of the
  set is not fixed by the source, and every statement below is about membership.
\<close>

definition lib_paths :: "runtime \<Rightarrow> string option list" where
  "lib_paths rt =
     remdups (map (\<lambda>n. sysconfig_get_path rt n []) [''stdlib'', ''purelib'', ''platlib''])"

text \<open>
  \<^verbatim>\<open>venv_real_prefix = getattr(sys, 'real_prefix')\<close>: \<^verbatim>\<open>getattr\<close> is called without a
  default, so a missing attribute raises \<^verbatim>\<open>AttributeError\<close>.
\<close>

definition venv_real_prefix :: "runtime \<Rightarrow> py_error + pyval" where
  "venv_real_prefix rt =
     (case sys_real_prefix rt of None \<Rightarrow> Inl AttributeError | Some v \<Rightarrow> Inr v)"

text \<open>
  \<^verbatim>\<open>if venv_real_prefix: lib_paths.add(sysconfig.get_path('stdlib',
  vars={'installed_base': venv_real_prefix}))\<close>: the set after the conditional \<^verbatim>\<open>add\<close>.
\<close>

definition lib_paths_add :: "runtime \<Rightarrow> pyval \<Rightarrow> string option list" where
  "lib_paths_add rt v =
     (if truthy v
      then List.insert (sysconfig_get_path rt ''stdlib'' [(''installed_base'', v)]) (lib_paths rt)
      else lib_paths rt)"

text \<open>
  \<^verbatim>\<open>LIB_PATHS = tuple(p for p in lib_paths if p is not None)\<close>, or the exception of
  line 75 when the module-level code does not reach it.
\<close>

definition LIB_PATHS :: "runtime \<Rightarrow> py_error + string option list" where
  "LIB_PATHS rt =
     (case venv_real_prefix rt of
        Inl e \<Rightarrow> Inl e
      | Inr v \<Rightarrow> Inr (filter (\<lambda>p. p \<noteq> None) (lib_paths_add rt v)))"

section \<open>Module state and the default code filter (lines 83 to 85)\<close>

text \<open>
  The globals the functions of the module read: the tuple \<^verbatim>\<open>LIB_PATHS\<close> computed at
  import, the imported object \<^verbatim>\<open>DEFAULT_REWRITER\<close> (a reference to a rewriter, of type
  \<open>'r\<close>), and \<^verbatim>\<open>os.environ\<close>. A call takes the state and returns its outcome with the
  state after the call.
\<close>

record 'r module_state =
  g_LIB_PATHS :: "string option list"
  g_DEFAULT_REWRITER :: 'r
  os_environ :: "string \<Rightarrow> string option"

text \<open>
  A code object: \<^verbatim>\<open>co_filename\<close> is the only attribute the module reads. \<open>None\<close> stands for
  an object whose \<^verbatim>\<open>co_filename\<close> is \<^verbatim>\<open>None\<close> (an absent source path).
\<close>

record CodeType =
  co_filename :: "string option"
  co_name :: string
  co_firstlineno :: int

text \<open>
  \<^verbatim>\<open>s.startswith(t)\<close> for a tuple \<open>t\<close>: the entries are tried in order, the first that is
  a prefix of \<open>s\<close> gives \<^verbatim>\<open>True\<close>, and an entry that is not a string raises \<^verbatim>\<open>TypeError\<close>
  when it is reached.
\<close>

fun startswith :: "string \<Rightarrow> string option list \<Rightarrow> py_error + bool" where
  "startswith s [] = Inr False"
| "startswith s (None # ps) = Inl TypeError"
| "startswith s (Some p # ps) = (if prefix p s then Inr True else startswith s ps)"

text \<open>
  \<^verbatim>\<open>return bool(code.co_filename and not code.co_filename.startswith(LIB_PATHS))\<close>:
  \<^verbatim>\<open>and\<close> stops at a falsy left operand (\<^verbatim>\<open>None\<close> or the empty string), whose \<^verbatim>\<open>bool\<close> is
  \<^verbatim>\<open>False\<close>; otherwise the prefix test is run and negated.
\<close>

definition default_code_filter ::
  "CodeType \<Rightarrow> 'r module_state \<Rightarrow> (py_error + bool) \<times> 'r module_state" where
  "default_code_filter code st =
     ((case co_filename code of
         None \<Rightarrow> Inr False
       | Some f \<Rightarrow>
           if f = [] then Inr False
           else (case startswith f (g_LIB_PATHS st) of
                   Inl e \<Rightarrow> Inl e
                 | Inr b \<Rightarrow> Inr (\<not> b))),
      st)"

section \<open>The configuration contract (class Config, lines 33 to 70)\<close>

text \<open>
  An accessor of a configuration is a call on the module state. A subclass of
  \<^verbatim>\<open>Config\<close> is described by the bodies it gives the two abstract methods, \<open>None\<close> for a
  method it does not define (the abstract method of \<^verbatim>\<open>Config\<close> is then inherited). The
  three other methods of \<^verbatim>\<open>Config\<close> are not abstract; a subclass that does not define them
  inherits the bodies \<open>Config_trace_logger\<close>, \<open>Config_code_filter\<close> and
  \<open>Config_sample_rate\<close> below.
\<close>

record ('s, 'r) Config_subclass =
  def_type_rewriter :: "('r module_state \<Rightarrow> (py_error + 'r) \<times> 'r module_state) option"
  def_trace_store :: "('r module_state \<Rightarrow> (py_error + 's) \<times> 'r module_state) option"

text \<open>An instance of a subclass: both required accessors are bound.\<close>

record ('s, 'r) Config_instance =
  type_rewriter :: "'r module_state \<Rightarrow> (py_error + 'r) \<times> 'r module_state"
  trace_store :: "'r module_state \<Rightarrow> (py_error + 's) \<times> 'r module_state"

text \<open>
  \<^verbatim>\<open>class Config(metaclass=ABCMeta)\<close> with \<^verbatim>\<open>@abstractmethod\<close> on \<^verbatim>\<open>type_rewriter\<close> and
  \<^verbatim>\<open>trace_store\<close>: the abstract methods a subclass leaves (in the sorted order of the
  error message), and instantiation, which \<^verbatim>\<open>ABCMeta\<close> refuses with a \<^verbatim>\<open>TypeError\<close> while
  any is left.
\<close>

definition abstractmethods :: "('s, 'r) Config_subclass \<Rightarrow> string list" where
  "abstractmethods cls =
     (if def_trace_store cls = None then [''trace_store''] else []) @
     (if def_type_rewriter cls = None then [''type_rewriter''] else [])"

definition instantiate :: "('s, 'r) Config_subclass \<Rightarrow> py_error + ('s, 'r) Config_instance" where
  "instantiate cls =
     (case (def_type_rewriter cls, def_trace_store cls) of
        (Some tr, Some ts) \<Rightarrow> Inr \<lparr>type_rewriter = tr, trace_store = ts\<rparr>
      | _ \<Rightarrow> Inl (AbstractTypeError (abstractmethods cls)))"

text \<open>
  Modelled from the spec: the class \<^verbatim>\<open>CallTraceStoreLogger\<close> of \<^verbatim>\<open>monkeytype.db.base\<close>, which
  is not part of this module. \<^verbatim>\<open>CallTraceStoreLogger(store)\<close> is "a logger that buffers/writes
  records directly into" \<open>store\<close>: a logger is known by the store it was built on, and
  building it does not fail.
\<close>

datatype 's CallTraceLogger = CallTraceStoreLogger 's

text \<open>\<^verbatim>\<open>return CallTraceStoreLogger(self.trace_store())\<close>\<close>

definition Config_trace_logger ::
  "('s, 'r) Config_instance \<Rightarrow> 'r module_state \<Rightarrow> (py_error + 's CallTraceLogger) \<times> 'r module_state"
  where
  "Config_trace_logger self st =
     (case trace_store self st of
        (Inl e, st') \<Rightarrow> (Inl e, st')
      | (Inr s, st') \<Rightarrow> (Inr (CallTraceStoreLogger s), st'))"

text \<open>
  A code filter is a callable on code objects; \<^verbatim>\<open>Config.code_filter\<close> and
  \<^verbatim>\<open>Config.sample_rate\<close> are both \<^verbatim>\<open>return None\<close>.
\<close>

type_synonym 'r CodeFilter =
  "CodeType \<Rightarrow> 'r module_state \<Rightarrow> (py_error + bool) \<times> 'r module_state"

definition Config_code_filter ::
  "('s, 'r) Config_instance \<Rightarrow> 'r module_state \<Rightarrow> (py_error + 'r CodeFilter option) \<times> 'r module_state"
  where
  "Config_code_filter self st = (Inr None, st)"

definition Config_sample_rate ::
  "('s, 'r) Config_instance \<Rightarrow> 'r module_state \<Rightarrow> (py_error + int option) \<times> 'r module_state"
  where
  "Config_sample_rate self st = (Inr None, st)"

section \<open>The default configuration (class DefaultConfig, lines 88 to 105)\<close>

definition DB_PATH_VAR :: string where
  "DB_PATH_VAR = ''MT_DB_PATH''"

text \<open>\<^verbatim>\<open>os.environ.get(key, default)\<close>\<close>

definition environ_get :: "(string \<Rightarrow> string option) \<Rightarrow> string \<Rightarrow> string \<Rightarrow> string" where
  "environ_get env key dflt = (case env key of None \<Rightarrow> dflt | Some v \<Rightarrow> v)"

text \<open>\<^verbatim>\<open>return DEFAULT_REWRITER\<close>\<close>

definition DefaultConfig_type_rewriter ::
  "'r module_state \<Rightarrow> (py_error + 'r) \<times> 'r module_state" where
  "DefaultConfig_type_rewriter st = (Inr (g_DEFAULT_REWRITER st), st)"

text \<open>
  \<^verbatim>\<open>db_path = os.environ.get(self.DB_PATH_VAR, "monkeytype.sqlite3");
  return SQLiteStore.make_store(db_path)\<close>. \<^verbatim>\<open>SQLiteStore.make_store\<close> belongs to
  \<^verbatim>\<open>monkeytype.db.sqlite\<close> and is a parameter: a call that takes the path to open.
\<close>

definition DefaultConfig_trace_store ::
  "(string \<Rightarrow> 'r module_state \<Rightarrow> (py_error + 's) \<times> 'r module_state)
     \<Rightarrow> 'r module_state \<Rightarrow> (py_error + 's) \<times> 'r module_state" where
  "DefaultConfig_trace_store make_store st =
     make_store (environ_get (os_environ st) DB_PATH_VAR ''monkeytype.sqlite3'') st"

text \<open>\<^verbatim>\<open>return default_code_filter\<close>\<close>

definition DefaultConfig_code_filter ::
  "'r module_state \<Rightarrow> (py_error + 'r CodeFilter option) \<times> 'r module_state" where
  "DefaultConfig_code_filter st = (Inr (Some default_code_filter), st)"

text \<open>
  \<^verbatim>\<open>class DefaultConfig(Config)\<close> defines both abstract methods (and \<^verbatim>\<open>code_filter\<close>, above),
  and \<^verbatim>\<open>DEFAULT_CONFIG = DefaultConfig()\<close> instantiates it at module level.
\<close>

definition DefaultConfig ::
  "(string \<Rightarrow> 'r module_state \<Rightarrow> (py_error + 's) \<times> 'r module_state)
     \<Rightarrow> ('s, 'r) Config_subclass" where
  "DefaultConfig make_store =
     \<lparr>def_type_rewriter = Some DefaultConfig_type_rewriter,
      def_trace_store = Some (DefaultConfig_trace_store make_store)\<rparr>"

definition DEFAULT_CONFIG ::
  "(string \<Rightarrow> 'r module_state \<Rightarrow> (py_error + 's) \<times> 'r module_state)
     \<Rightarrow> py_error + ('s, 'r) Config_instance" where
  "DEFAULT_CONFIG make_store = instantiate (DefaultConfig make_store)"

section \<open>Concrete runtimes, states and code objects\<close>

text \<open>
  The path query of an interpreter whose prefix is \<^verbatim>\<open>/opt/py\<close>: \<^verbatim>\<open>purelib\<close> and \<^verbatim>\<open>platlib\<close>
  coincide, and with \<^verbatim>\<open>installed_base\<close> overridden by \<^verbatim>\<open>/usr\<close> the standard library of
  that base installation is reported. \<open>rt_venv\<close> is this interpreter as a virtualenv made
  from \<^verbatim>\<open>/usr\<close>, which sets \<^verbatim>\<open>sys.real_prefix\<close>.
\<close>

definition example_get_path :: "string \<Rightarrow> (string \<times> pyval) list \<Rightarrow> string option" where
  "example_get_path n vars =
     (if vars = [] then
        (if n = ''stdlib'' then Some ''/opt/py/lib/python3.6''
         else if n = ''purelib'' \<or> n = ''platlib'' then Some ''/opt/py/lib/python3.6/site-packages''
         else None)
      else if n = ''stdlib'' \<and> vars = [(''installed_base'', PyStr ''/usr'')]
        then Some ''/usr/lib/python3.6''
      else None)"

definition rt_venv :: runtime where
  "rt_venv = \<lparr>sysconfig_get_path = example_get_path, sys_real_prefix = Some (PyStr ''/usr'')\<rparr>"

text \<open>The same path query outside a virtualenv: \<^verbatim>\<open>sys\<close> has no attribute \<^verbatim>\<open>real_prefix\<close>.\<close>

definition rt_plain :: runtime where
  "rt_plain = \<lparr>sysconfig_get_path = example_get_path, sys_real_prefix = None\<rparr>"

text \<open>
  A runtime whose path query gives the empty string for \<^verbatim>\<open>stdlib\<close> and \<^verbatim>\<open>None\<close> for
  \<^verbatim>\<open>platlib\<close>.
\<close>

definition rt_unresolved :: runtime where
  "rt_unresolved =
     \<lparr>sysconfig_get_path =
        (\<lambda>n vars. if n = ''stdlib'' then Some []
                  else if n = ''purelib'' then Some ''/opt/py/lib/python3.6/site-packages''
                  else None),
      sys_real_prefix = Some PyNone\<rparr>"

text \<open>The module state after the import under \<open>rt_venv\<close>; the rewriter is object 7.\<close>

definition st_venv :: "nat module_state" where
  "st_venv =
     \<lparr>g_LIB_PATHS = [Some ''/usr/lib/python3.6'', Some ''/opt/py/lib/python3.6'',
                      Some ''/opt/py/lib/python3.6/site-packages''],
      g_DEFAULT_REWRITER = 7,
      os_environ = (\<lambda>k. if k = ''MT_DB_PATH'' then Some ''/tmp/traces.db'' else None)\<rparr>"

definition code_app :: CodeType where
  "code_app = \<lparr>co_filename = Some ''/home/u/app.py'', co_name = ''main'', co_firstlineno = 3\<rparr>"

definition code_sibling :: CodeType where
  "code_sibling =
     \<lparr>co_filename = Some ''/opt/py/lib/python3.6-extra/f.py'', co_name = ''f'', co_firstlineno = 1\<rparr>"

text \<open>A store collaborator for concrete runs: opening records the path and cannot fail.\<close>

datatype store = SQLiteStore string

definition open_store :: "string \<Rightarrow> nat module_state \<Rightarrow> (py_error + store) \<times> nat module_state" where
  "open_store path st = (Inr (SQLiteStore path), st)"

text \<open>
  A bare configuration: a subclass of \<^verbatim>\<open>Config\<close> that defines \<^verbatim>\<open>type_rewriter\<close> (returning
  \<^verbatim>\<open>DEFAULT_REWRITER\<close>) and \<^verbatim>\<open>trace_store\<close> (opening \<^verbatim>\<open>bare.sqlite3\<close>) and nothing else.
\<close>

definition BareConfig :: "(store, nat) Config_subclass" where
  "BareConfig =
     \<lparr>def_type_rewriter = Some DefaultConfig_type_rewriter,
      def_trace_store = Some (open_store ''bare.sqlite3'')\<rparr>"

section \<open>Helper lemmas on the prefix tuple\<close>

lemma startswith_strings:
  "None \<notin> set ps \<Longrightarrow> startswith s ps = Inr (\<exists>p. Some p \<in> set ps \<and> prefix p s)"
proof (induction ps)
  case Nil
  show ?case by simp
next
  case (Cons q ps)
  then obtain p where q: "q = Some p" by (cases q) auto
  from Cons have "None \<notin> set ps" by simp
  with Cons.IH have ih: "startswith s ps = Inr (\<exists>p. Some p \<in> set ps \<and> prefix p s)" .
  show ?case
  proof (cases "prefix p s")
    case True
    then show ?thesis using q by auto
  next
    case False
    then show ?thesis using q ih by auto
  qed
qed

lemma LIB_PATHS_no_None: "LIB_PATHS rt = Inr lp \<Longrightarrow> None \<notin> set lp"
  by (auto simp: LIB_PATHS_def split: sum.splits)

section \<open>The default code filter\<close>

text \<open>
  Claim C1. When the tuple \<^verbatim>\<open>LIB_PATHS\<close> of the state is the one the module-level code
  computed, \<^verbatim>\<open>default_code_filter\<close> returns (it does not raise), and it returns \<^verbatim>\<open>True\<close>
  exactly when \<^verbatim>\<open>co_filename\<close> is present and non-empty and no entry of \<^verbatim>\<open>LIB_PATHS\<close> is a
  prefix of it; for an absent or empty \<^verbatim>\<open>co_filename\<close> it returns \<^verbatim>\<open>False\<close>.
\<close>

theorem default_code_filter_iff:
  assumes "LIB_PATHS rt = Inr (g_LIB_PATHS st)"
  shows "fst (default_code_filter code st) =
           Inr (\<exists>f. co_filename code = Some f \<and> f \<noteq> [] \<and>
                    \<not> (\<exists>p. Some p \<in> set (g_LIB_PATHS st) \<and> prefix p f))
         \<and> (co_filename code = None \<or> co_filename code = Some []
              \<longrightarrow> fst (default_code_filter code st) = Inr False)"
proof -
  from assms have nn: "None \<notin> set (g_LIB_PATHS st)" by (rule LIB_PATHS_no_None)
  show ?thesis
  proof (cases "co_filename code")
    case None
    then show ?thesis by (simp add: default_code_filter_def)
  next
    case (Some f)
    then show ?thesis
      using startswith_strings [OF nn, of f]
      by (simp add: default_code_filter_def)
  qed
qed

theorem default_code_filter_iff_witness:
  "LIB_PATHS rt_venv = Inr (g_LIB_PATHS st_venv)
   \<and> fst (default_code_filter code_app st_venv) = Inr True
   \<and> fst (default_code_filter (code_app\<lparr>co_filename := Some []\<rparr>) st_venv) = Inr False"
proof -
  have h: "LIB_PATHS rt_venv = Inr (g_LIB_PATHS st_venv)"
    by (simp add: LIB_PATHS_def venv_real_prefix_def lib_paths_add_def lib_paths_def
        rt_venv_def st_venv_def example_get_path_def)
  have "fst (default_code_filter code_app st_venv) = Inr True"
    using default_code_filter_iff [OF h, of code_app]
    by (auto simp: code_app_def st_venv_def)
  moreover have "fst (default_code_filter (code_app\<lparr>co_filename := Some []\<rparr>) st_venv) = Inr False"
    using default_code_filter_iff [OF h, of "code_app\<lparr>co_filename := Some []\<rparr>"]
    by simp
  ultimately show ?thesis using h by simp
qed

text \<open>
  Claim C10. The prefix test compares characters, not path components: when \<open>P\<close> is an
  entry of \<^verbatim>\<open>LIB_PATHS\<close> and \<^verbatim>\<open>co_filename\<close> is \<open>P\<close> followed by any characters at all (a
  sibling directory such as \<open>P\<close> followed by \<^verbatim>\<open>-extra/f.py\<close> included), the filter returns
  \<^verbatim>\<open>False\<close>.
\<close>

theorem default_code_filter_string_prefix:
  assumes "LIB_PATHS rt = Inr (g_LIB_PATHS st)"
    and "Some P \<in> set (g_LIB_PATHS st)"
    and "co_filename code = Some (P @ rest)"
  shows "fst (default_code_filter code st) = Inr False"
proof -
  from assms(1) have nn: "None \<notin> set (g_LIB_PATHS st)" by (rule LIB_PATHS_no_None)
  have "prefix P (P @ rest)" by simp
  with assms(2) have "\<exists>p. Some p \<in> set (g_LIB_PATHS st) \<and> prefix p (P @ rest)" by blast
  with startswith_strings [OF nn, of "P @ rest"]
  have "startswith (P @ rest) (g_LIB_PATHS st) = Inr True" by simp
  with assms(3) show ?thesis by (simp add: default_code_filter_def)
qed

theorem default_code_filter_string_prefix_witness:
  "LIB_PATHS rt_venv = Inr (g_LIB_PATHS st_venv)
   \<and> Some ''/opt/py/lib/python3.6'' \<in> set (g_LIB_PATHS st_venv)
   \<and> co_filename code_sibling = Some (''/opt/py/lib/python3.6'' @ ''-extra/f.py'')
   \<and> fst (default_code_filter code_sibling st_venv) = Inr False"
proof -
  have h: "LIB_PATHS rt_venv = Inr (g_LIB_PATHS st_venv)"
    by (simp add: LIB_PATHS_def venv_real_prefix_def lib_paths_add_def lib_paths_def
        rt_venv_def st_venv_def example_get_path_def)
  have m: "Some ''/opt/py/lib/python3.6'' \<in> set (g_LIB_PATHS st_venv)"
    by (simp add: st_venv_def)
  have f: "co_filename code_sibling = Some (''/opt/py/lib/python3.6'' @ ''-extra/f.py'')"
    by (simp add: code_sibling_def)
  from default_code_filter_string_prefix [OF h m f] h m f show ?thesis by blast
qed

text \<open>
  Claim C9. The filter is a function of \<^verbatim>\<open>co_filename\<close> and of the tuple \<^verbatim>\<open>LIB_PATHS\<close> alone
  and changes nothing: two evaluations on code objects with equal \<^verbatim>\<open>co_filename\<close>, in
  states with the same \<^verbatim>\<open>LIB_PATHS\<close>, have the same outcome, and each leaves the state it
  ran in as it was.
\<close>

theorem default_code_filter_pure:
  assumes "co_filename c1 = co_filename c2"
    and "g_LIB_PATHS st = g_LIB_PATHS st'"
  shows "fst (default_code_filter c1 st) = fst (default_code_filter c2 st')
         \<and> snd (default_code_filter c1 st) = st
         \<and> snd (default_code_filter c2 st') = st'"
  using assms by (simp add: default_code_filter_def split: option.splits)

theorem default_code_filter_pure_witness:
  "co_filename code_app = co_filename (code_app\<lparr>co_name := ''other'', co_firstlineno := 99\<rparr>)
   \<and> g_LIB_PATHS st_venv = g_LIB_PATHS (st_venv\<lparr>g_DEFAULT_REWRITER := 8\<rparr>)
   \<and> fst (default_code_filter code_app st_venv) =
       fst (default_code_filter (code_app\<lparr>co_name := ''other'', co_firstlineno := 99\<rparr>)
              (st_venv\<lparr>g_DEFAULT_REWRITER := 8\<rparr>))
   \<and> snd (default_code_filter code_app st_venv) = st_venv"
proof -
  have a: "co_filename code_app = co_filename (code_app\<lparr>co_name := ''other'', co_firstlineno := 99\<rparr>)"
    by simp
  have b: "g_LIB_PATHS st_venv = g_LIB_PATHS (st_venv\<lparr>g_DEFAULT_REWRITER := 8\<rparr>)"
    by simp
  from default_code_filter_pure [OF a b] a b show ?thesis by blast
qed

section \<open>The library path prefixes\<close>

lemma LIB_PATHS_absent_raises:
  "sys_real_prefix rt = None \<Longrightarrow> LIB_PATHS rt = Inl AttributeError"
  by (simp add: LIB_PATHS_def venv_real_prefix_def)

lemma LIB_PATHS_falsy:
  "sys_real_prefix rt = Some v \<Longrightarrow> \<not> truthy v \<Longrightarrow>
     LIB_PATHS rt = Inr (filter (\<lambda>p. p \<noteq> None) (lib_paths rt))"
  by (simp add: LIB_PATHS_def venv_real_prefix_def lib_paths_add_def)

text \<open>
  Claim C2. Outside a virtualenv the attribute \<^verbatim>\<open>real_prefix\<close> does not exist, and the
  module-level code raises \<^verbatim>\<open>AttributeError\<close> at line 75 instead of computing the tuple
  it computes when the attribute is set to \<^verbatim>\<open>None\<close>.
\<close>

theorem LIB_PATHS_real_prefix_absent:
  "LIB_PATHS rt_plain = Inl AttributeError
   \<and> LIB_PATHS (rt_plain\<lparr>sys_real_prefix := Some PyNone\<rparr>) =
       Inr [Some ''/opt/py/lib/python3.6'', Some ''/opt/py/lib/python3.6/site-packages'']"
  by (simp add: LIB_PATHS_def venv_real_prefix_def lib_paths_add_def lib_paths_def
      rt_plain_def example_get_path_def)

text \<open>
  Claim C3, as stated, fails: a path query that gives the empty string leaves the empty
  string in \<^verbatim>\<open>LIB_PATHS\<close>, since line 80 tests \<^verbatim>\<open>p is not None\<close> only.
\<close>

theorem LIB_PATHS_keeps_empty_string:
  "LIB_PATHS rt_unresolved = Inr [Some [], Some ''/opt/py/lib/python3.6/site-packages'']
   \<and> Some [] \<in> set [Some [], Some ''/opt/py/lib/python3.6/site-packages'']"
  by (simp add: LIB_PATHS_def venv_real_prefix_def lib_paths_add_def lib_paths_def
      rt_unresolved_def)

text \<open>
  Claim C3, amended. \<^verbatim>\<open>LIB_PATHS\<close> has no \<^verbatim>\<open>None\<close> entry, whatever the path queries give:
  its entries are exactly the strings that the three queries give, and the string that
  the query with \<^verbatim>\<open>installed_base\<close> overridden gives when \<^verbatim>\<open>real_prefix\<close> is truthy. An
  empty string among them is kept.
\<close>

theorem LIB_PATHS_drops_None:
  assumes "LIB_PATHS rt = Inr lp"
  shows "None \<notin> set lp
         \<and> (\<forall>s. Some s \<in> set lp \<longleftrightarrow>
               (\<exists>n \<in> {''stdlib'', ''purelib'', ''platlib''}. sysconfig_get_path rt n [] = Some s)
               \<or> (\<exists>v. sys_real_prefix rt = Some v \<and> truthy v
                      \<and> sysconfig_get_path rt ''stdlib'' [(''installed_base'', v)] = Some s))"
proof -
  from assms obtain v where v: "sys_real_prefix rt = Some v"
    and lp: "lp = filter (\<lambda>p. p \<noteq> None) (lib_paths_add rt v)"
    by (auto simp: LIB_PATHS_def venv_real_prefix_def split: option.splits)
  have "None \<notin> set lp" using lp by simp
  moreover have "\<And>s. Some s \<in> set lp \<longleftrightarrow>
       (\<exists>n \<in> {''stdlib'', ''purelib'', ''platlib''}. sysconfig_get_path rt n [] = Some s)
       \<or> (\<exists>v. sys_real_prefix rt = Some v \<and> truthy v
              \<and> sysconfig_get_path rt ''stdlib'' [(''installed_base'', v)] = Some s)"
    using v lp by (auto simp: lib_paths_add_def lib_paths_def)
  ultimately show ?thesis by blast
qed

theorem LIB_PATHS_drops_None_witness:
  "LIB_PATHS rt_unresolved = Inr [Some [], Some ''/opt/py/lib/python3.6/site-packages'']
   \<and> None \<notin> set [Some [], Some ''/opt/py/lib/python3.6/site-packages'']
   \<and> sysconfig_get_path rt_unresolved ''platlib'' [] = None"
proof -
  have h: "LIB_PATHS rt_unresolved = Inr [Some [], Some ''/opt/py/lib/python3.6/site-packages'']"
    by (simp add: LIB_PATHS_def venv_real_prefix_def lib_paths_add_def lib_paths_def
        rt_unresolved_def)
  have "sysconfig_get_path rt_unresolved ''platlib'' [] = None"
    by (simp add: rt_unresolved_def)
  with LIB_PATHS_drops_None [OF h] h show ?thesis by blast
qed

section \<open>The configuration contract and the default configuration\<close>

lemma DEFAULT_CONFIG_instantiates:
  "DEFAULT_CONFIG make_store =
     Inr \<lparr>type_rewriter = DefaultConfig_type_rewriter,
          trace_store = DefaultConfig_trace_store make_store\<rparr>"
  by (simp add: DEFAULT_CONFIG_def DefaultConfig_def instantiate_def)

text \<open>
  Claim C4. \<^verbatim>\<open>DefaultConfig.trace_store()\<close> hands \<^verbatim>\<open>SQLiteStore.make_store\<close> the value of
  \<^verbatim>\<open>MT_DB_PATH\<close> when the variable is set, and the literal \<^verbatim>\<open>monkeytype.sqlite3\<close> when it is
  not; its outcome is the outcome of that call.
\<close>

theorem DefaultConfig_trace_store_path:
  "(os_environ st ''MT_DB_PATH'' = Some v \<longrightarrow>
      DefaultConfig_trace_store make_store st = make_store v st)
   \<and> (os_environ st ''MT_DB_PATH'' = None \<longrightarrow>
      DefaultConfig_trace_store make_store st = make_store ''monkeytype.sqlite3'' st)"
  by (simp add: DefaultConfig_trace_store_def environ_get_def DB_PATH_VAR_def)

theorem DefaultConfig_trace_store_path_witness:
  "os_environ st_venv ''MT_DB_PATH'' = Some ''/tmp/traces.db''
   \<and> DefaultConfig_trace_store open_store st_venv = (Inr (SQLiteStore ''/tmp/traces.db''), st_venv)
   \<and> os_environ (st_venv\<lparr>os_environ := \<lambda>k. None\<rparr>) ''MT_DB_PATH'' = None
   \<and> DefaultConfig_trace_store open_store (st_venv\<lparr>os_environ := \<lambda>k. None\<rparr>) =
       (Inr (SQLiteStore ''monkeytype.sqlite3''), st_venv\<lparr>os_environ := \<lambda>k. None\<rparr>)"
proof -
  have a: "os_environ st_venv ''MT_DB_PATH'' = Some ''/tmp/traces.db''"
    by (simp add: st_venv_def)
  have b: "os_environ (st_venv\<lparr>os_environ := \<lambda>k. None\<rparr>) ''MT_DB_PATH'' = None"
    by simp
  from DefaultConfig_trace_store_path [of st_venv "''/tmp/traces.db''" open_store] a
  have "DefaultConfig_trace_store open_store st_venv = (Inr (SQLiteStore ''/tmp/traces.db''), st_venv)"
    by (simp add: open_store_def)
  moreover
  from DefaultConfig_trace_store_path [of "st_venv\<lparr>os_environ := \<lambda>k. None\<rparr>" "[]" open_store] b
  have "DefaultConfig_trace_store open_store (st_venv\<lparr>os_environ := \<lambda>k. None\<rparr>) =
          (Inr (SQLiteStore ''monkeytype.sqlite3''), st_venv\<lparr>os_environ := \<lambda>k. None\<rparr>)"
    by (simp add: open_store_def)
  ultimately show ?thesis using a b by blast
qed

text \<open>
  Claim C5. A subclass that defines the two required accessors and nothing else can be
  instantiated, and on its instance, whenever \<^verbatim>\<open>trace_store()\<close> returns a store \<open>s\<close>,
  \<^verbatim>\<open>trace_logger()\<close> returns the \<^verbatim>\<open>CallTraceStoreLogger\<close> built on \<open>s\<close>; \<^verbatim>\<open>code_filter()\<close> and
  \<^verbatim>\<open>sample_rate()\<close> return \<^verbatim>\<open>None\<close>. None of the three raises.
\<close>

theorem Config_defaults:
  assumes "def_type_rewriter cls = Some tr"
    and "def_trace_store cls = Some ts"
    and "ts st = (Inr s, st')"
  shows "\<exists>self. instantiate cls = Inr self
           \<and> Config_trace_logger self st = (Inr (CallTraceStoreLogger s), st')
           \<and> Config_code_filter self st = (Inr None, st)
           \<and> Config_sample_rate self st = (Inr None, st)"
  using assms
  by (simp add: instantiate_def Config_trace_logger_def Config_code_filter_def
      Config_sample_rate_def)

theorem Config_defaults_witness:
  "def_type_rewriter BareConfig = Some DefaultConfig_type_rewriter
   \<and> def_trace_store BareConfig = Some (open_store ''bare.sqlite3'')
   \<and> open_store ''bare.sqlite3'' st_venv = (Inr (SQLiteStore ''bare.sqlite3''), st_venv)
   \<and> (\<exists>self. instantiate BareConfig = Inr self
         \<and> Config_trace_logger self st_venv =
             (Inr (CallTraceStoreLogger (SQLiteStore ''bare.sqlite3'')), st_venv)
         \<and> Config_code_filter self st_venv = (Inr None, st_venv)
         \<and> Config_sample_rate self st_venv = (Inr None, st_venv))"
proof -
  have a: "def_type_rewriter BareConfig = Some DefaultConfig_type_rewriter"
    by (simp add: BareConfig_def)
  have b: "def_trace_store BareConfig = Some (open_store ''bare.sqlite3'')"
    by (simp add: BareConfig_def)
  have c: "open_store ''bare.sqlite3'' st_venv = (Inr (SQLiteStore ''bare.sqlite3''), st_venv)"
    by (simp add: open_store_def)
  from Config_defaults [OF a b c] a b c show ?thesis by blast
qed

text \<open>
  Claim C6. \<^verbatim>\<open>DefaultConfig.code_filter()\<close> returns a filter, which is
  \<^verbatim>\<open>default_code_filter\<close> (it gives the same outcome on every code object in every state);
  its result is not \<^verbatim>\<open>None\<close>, the result of \<^verbatim>\<open>Config.code_filter()\<close>.
\<close>

theorem DefaultConfig_code_filter_default:
  "(\<exists>flt. DefaultConfig_code_filter st = (Inr (Some flt), st)
       \<and> (\<forall>code st'. flt code st' = default_code_filter code st'))
   \<and> fst (DefaultConfig_code_filter st) \<noteq> Inr None
   \<and> fst (DefaultConfig_code_filter st) \<noteq> fst (Config_code_filter self st)"
  by (simp add: DefaultConfig_code_filter_def Config_code_filter_def)

text \<open>
  Claim C7. Every call of \<^verbatim>\<open>DefaultConfig.type_rewriter()\<close> returns the object that the
  global \<^verbatim>\<open>DEFAULT_REWRITER\<close> refers to and leaves the state as it was, so that two calls in
  a row return the same object.
\<close>

theorem DefaultConfig_type_rewriter_shared:
  assumes "DefaultConfig_type_rewriter st = (r1, st1)"
    and "DefaultConfig_type_rewriter st1 = (r2, st2)"
  shows "r1 = Inr (g_DEFAULT_REWRITER st) \<and> r2 = r1 \<and> st1 = st \<and> st2 = st"
  using assms by (auto simp: DefaultConfig_type_rewriter_def)

theorem DefaultConfig_type_rewriter_shared_witness:
  "DefaultConfig_type_rewriter st_venv = (Inr 7, st_venv)
   \<and> Inr 7 = (Inr (g_DEFAULT_REWRITER st_venv) :: py_error + nat)"
proof -
  have a: "DefaultConfig_type_rewriter st_venv = (Inr 7, st_venv)"
    by (simp add: DefaultConfig_type_rewriter_def st_venv_def)
  from DefaultConfig_type_rewriter_shared [OF a a] a show ?thesis by blast
qed

text \<open>
  Claim C8. A subclass that leaves \<^verbatim>\<open>type_rewriter\<close> or \<^verbatim>\<open>trace_store\<close> undefined cannot be
  instantiated: the outcome of the instantiation is the \<^verbatim>\<open>TypeError\<close> of \<^verbatim>\<open>ABCMeta\<close>, naming
  exactly the methods left undefined, and no instance.
\<close>

theorem instantiate_abstract:
  assumes "def_type_rewriter cls = None \<or> def_trace_store cls = None"
  shows "instantiate cls = Inl (AbstractTypeError (abstractmethods cls))
         \<and> abstractmethods cls \<noteq> []
         \<and> (''trace_store'' \<in> set (abstractmethods cls) \<longleftrightarrow> def_trace_store cls = None)
         \<and> (''type_rewriter'' \<in> set (abstractmethods cls) \<longleftrightarrow> def_type_rewriter cls = None)"
  using assms
  by (auto simp: instantiate_def abstractmethods_def split: option.splits)

theorem instantiate_abstract_witness:
  "def_trace_store (BareConfig\<lparr>def_trace_store := None\<rparr>) = None
   \<and> instantiate (BareConfig\<lparr>def_trace_store := None\<rparr>) =
       Inl (AbstractTypeError [''trace_store''])"
proof -
  have a: "def_trace_store (BareConfig\<lparr>def_trace_store := None\<rparr>) = None"
    by simp
  have "abstractmethods (BareConfig\<lparr>def_trace_store := None\<rparr>) = [''trace_store'']"
    by (simp add: abstractmethods_def BareConfig_def)
  with instantiate_abstract [of "BareConfig\<lparr>def_trace_store := None\<rparr>"] a
  show ?thesis by simp
qed

end
